theory Spec2Isabelle
  imports Main "HOL-Library.Word" "HOL-Library.Multiset"
begin

unbundle bit_operations_syntax

section \<open>Shard routing of shard\_manager.py\<close>

text \<open>
  The module routes a key to a shard in two ways: \<open>ShardManager\<close> takes the key's hash
  modulo the shard count, \<open>ConsistentHashShardManager\<close> looks the hash up in a sorted
  ring of virtual nodes. Python integers are \<open>int\<close>, a \<open>str\<close> is a \<open>string\<close> holding
  its UTF-8 bytes, \<open>bytes\<close> is a list of 8-bit words, and every \<open>raise\<close> is an \<open>Inl\<close>.
\<close>

subsection \<open>Values and errors\<close>

type_synonym bytes = "8 word list"

text \<open>A key as the methods are annotated: \<open>Union[str, int, bytes]\<close>.\<close>

datatype key = KStr string | KInt int | KBytes bytes

datatype error = TypeError | ValueError | ZeroDivisionError | IndexError

text \<open>\<open>@dataclass class ShardConfig\<close>.\<close>

record ShardConfig =
  total_shards :: int
  hash_seed :: int
  algorithm :: string

subsection \<open>Python built-ins used by the module\<close>

text \<open>\<open>str(n)\<close> of an integer: its decimal digits, with a leading minus sign.\<close>

fun nat_digits :: "nat \<Rightarrow> string" where
  "nat_digits n =
     (if n < 10 then [char_of (48 + n)]
      else nat_digits (n div 10) @ [char_of (48 + n mod 10)])"

declare nat_digits.simps [simp del]

definition str :: "int \<Rightarrow> string" where
  "str n = (if n < 0 then CHR ''-'' # nat_digits (nat (- n)) else nat_digits (nat n))"

text \<open>\<open>s.encode('utf-8')\<close>: the string already holds its UTF-8 bytes.\<close>

definition encode :: "string \<Rightarrow> bytes" where
  "encode s = map (\<lambda>c. of_nat (of_char c)) s"

text \<open>\<open>b.hex()\<close>: two lower-case hexadecimal digits for each byte.\<close>

definition hex_digit :: "nat \<Rightarrow> char" where
  "hex_digit d = (if d < 10 then char_of (48 + d) else char_of (87 + d))"

definition hex :: "bytes \<Rightarrow> string" where
  "hex bs = concat (map (\<lambda>b. [hex_digit (unat b div 16), hex_digit (unat b mod 16)]) bs)"

text \<open>\<open>range(n)\<close>: the integers from 0 up to \<open>n - 1\<close>, none when \<open>n \<le> 0\<close>.\<close>

definition py_range :: "int \<Rightarrow> int list" where
  "py_range n = [0..n - 1]"

text \<open>\<open>a % b\<close>: floor modulus, \<open>ZeroDivisionError\<close> when \<open>b\<close> is 0.\<close>

definition py_mod :: "int \<Rightarrow> int \<Rightarrow> error + int" where
  "py_mod a b = (if b = 0 then Inl ZeroDivisionError else Inr (a mod b))"

subsection \<open>The hashing backend\<close>

text \<open>
  What the module imports and does not define: the flag \<open>HAS_MMH3\<close> set by the import at
  the top of the file, the bit mixing of the two \<open>mmh3\<close> functions (a 32-bit and a 128-bit
  word for given bytes and seed), and Python's built-in \<open>hash\<close> on a \<open>str\<close>, which may be
  any integer. They are parameters.
\<close>

record backend =
  HAS_MMH3 :: bool
  mmh3_hash :: "bytes \<Rightarrow> int \<Rightarrow> 32 word"
  mmh3_hash128 :: "bytes \<Rightarrow> int \<Rightarrow> 128 word"
  builtin_hash :: "string \<Rightarrow> int"

text \<open>
  The interface of \<open>mmh3.hash(key, seed, signed)\<close> and \<open>mmh3.hash128(key, seed, signed)\<close>.
  The key is checked first: a \<open>str\<close> is hashed by its UTF-8 encoding, a bytes object as it
  is, and anything else is a \<open>TypeError\<close>. The seed is checked next: a seed outside
  \<open>[0, 2^32 - 1]\<close> is a \<open>ValueError\<close>. The hash word is then returned as a Python integer,
  read as two's complement when \<open>signed\<close> is true and unsigned otherwise.
\<close>

fun mmh3_arg :: "key \<Rightarrow> error + bytes" where
  "mmh3_arg (KStr s) = Inr (encode s)"
| "mmh3_arg (KBytes b) = Inr b"
| "mmh3_arg (KInt n) = Inl TypeError"

definition mmh3_seed_ok :: "int \<Rightarrow> bool" where
  "mmh3_seed_ok seed = (0 \<le> seed \<and> seed \<le> 0xffffffff)"

definition mmh3_hash_call :: "backend \<Rightarrow> key \<Rightarrow> int \<Rightarrow> bool \<Rightarrow> error + int" where
  "mmh3_hash_call B k seed is_signed =
     (case mmh3_arg k of
        Inl e \<Rightarrow> Inl e
      | Inr b \<Rightarrow>
          (if mmh3_seed_ok seed
           then Inr (if is_signed then sint (mmh3_hash B b seed) else uint (mmh3_hash B b seed))
           else Inl ValueError))"

definition mmh3_hash128_call :: "backend \<Rightarrow> key \<Rightarrow> int \<Rightarrow> bool \<Rightarrow> error + int" where
  "mmh3_hash128_call B k seed is_signed =
     (case mmh3_arg k of
        Inl e \<Rightarrow> Inl e
      | Inr b \<Rightarrow>
          (if mmh3_seed_ok seed
           then Inr (if is_signed then sint (mmh3_hash128 B b seed) else uint (mmh3_hash128 B b seed))
           else Inl ValueError))"

text \<open>
  The fallback branch shared by both wrappers up to the mask:
  \<^verbatim>\<open>
  if isinstance(key, str): key = key.encode('utf-8')
  combined = str(seed).encode() + key
  \<close>
  Adding an \<open>int\<close> to \<open>bytes\<close> raises \<open>TypeError\<close>.
\<close>

fun fallback_combined :: "key \<Rightarrow> int \<Rightarrow> error + bytes" where
  "fallback_combined (KStr s) seed = Inr (encode (str seed) @ encode s)"
| "fallback_combined (KBytes b) seed = Inr (encode (str seed) @ b)"
| "fallback_combined (KInt n) seed = Inl TypeError"

subsection \<open>class MurmurHash\<close>

definition murmur3_32 :: "backend \<Rightarrow> key \<Rightarrow> int \<Rightarrow> error + int" where
  "murmur3_32 B k seed =
     (if HAS_MMH3 B then mmh3_hash_call B k seed False
      else
        (case fallback_combined k seed of
           Inl e \<Rightarrow> Inl e
         | Inr combined \<Rightarrow> Inr (\<bar>builtin_hash B (hex combined)\<bar> AND 0xffffffff)))"

definition murmur3_128 :: "backend \<Rightarrow> key \<Rightarrow> int \<Rightarrow> error + int" where
  "murmur3_128 B k seed =
     (if HAS_MMH3 B then
        (case mmh3_hash128_call B k seed False of
           Inl e \<Rightarrow> Inl e
         | Inr hash_128 \<Rightarrow> Inr (hash_128 AND 0x7fffffffffffffff))
      else
        (case fallback_combined k seed of
           Inl e \<Rightarrow> Inl e
         | Inr combined \<Rightarrow> Inr (\<bar>builtin_hash B (hex combined)\<bar> AND 0x7fffffffffffffff)))"

text \<open>
  The seeds with which a wrapper can return: every seed on the fallback branch, the
  seeds the library accepts on the \<open>mmh3\<close> branch.
\<close>

definition seed_accepted :: "backend \<Rightarrow> int \<Rightarrow> bool" where
  "seed_accepted B seed = (if HAS_MMH3 B then mmh3_seed_ok seed else True)"

subsection \<open>class ShardManager\<close>

text \<open>The function object kept in \<open>self._hash_func\<close> is one of the two wrappers.\<close>

datatype hash_fn = Murmur3_32 | Murmur3_128

record ShardManager =
  config :: ShardConfig
  hash_func :: hash_fn

definition get_hash_function :: "ShardConfig \<Rightarrow> error + hash_fn" where
  "get_hash_function cfg =
     (if algorithm cfg = ''murmur3_32'' then Inr Murmur3_32
      else if algorithm cfg = ''murmur3_128'' then Inr Murmur3_128
      else Inl ValueError)"

definition ShardManager_init :: "ShardConfig \<Rightarrow> error + ShardManager" where
  "ShardManager_init cfg =
     (case get_hash_function cfg of
        Inl e \<Rightarrow> Inl e
      | Inr f \<Rightarrow> Inr \<lparr>config = cfg, hash_func = f\<rparr>)"

text \<open>Calling \<open>self._hash_func(key, seed)\<close>.\<close>

fun call_hash_func :: "backend \<Rightarrow> hash_fn \<Rightarrow> key \<Rightarrow> int \<Rightarrow> error + int" where
  "call_hash_func B Murmur3_32 k seed = murmur3_32 B k seed"
| "call_hash_func B Murmur3_128 k seed = murmur3_128 B k seed"

text \<open>\<open>if isinstance(key, int): key = str(key)\<close>, the first statement of both lookups.\<close>

fun int_key_to_str :: "key \<Rightarrow> key" where
  "int_key_to_str (KInt n) = KStr (str n)"
| "int_key_to_str k = k"

text \<open>
  \<open>ShardManager.get_shard_id\<close> and \<open>ShardManager.migrate_key\<close> as they run on an instance
  of the base class; the subclass overrides \<open>get_shard_id\<close> (\<open>ring_get_shard_id\<close> below).
\<close>

definition get_shard_id :: "backend \<Rightarrow> ShardManager \<Rightarrow> key \<Rightarrow> error + int" where
  "get_shard_id B self k0 =
     (let k = int_key_to_str k0 in
      case call_hash_func B (hash_func self) k (hash_seed (config self)) of
        Inl e \<Rightarrow> Inl e
      | Inr hash_value \<Rightarrow> py_mod hash_value (total_shards (config self)))"

definition migrate_key ::
  "backend \<Rightarrow> ShardManager \<Rightarrow> key \<Rightarrow> int \<Rightarrow> error + (int \<times> int \<times> bool)" where
  "migrate_key B self k old_total_shards =
     (case call_hash_func B (hash_func self) k (hash_seed (config self)) of
        Inl e \<Rightarrow> Inl e
      | Inr hash_value \<Rightarrow>
          (case py_mod hash_value old_total_shards of
             Inl e \<Rightarrow> Inl e
           | Inr old_shard_id \<Rightarrow>
               (case get_shard_id B self k of
                  Inl e \<Rightarrow> Inl e
                | Inr new_shard_id \<Rightarrow>
                    Inr (old_shard_id, new_shard_id, old_shard_id \<noteq> new_shard_id))))"

subsection \<open>class ConsistentHashShardManager(ShardManager)\<close>

record ConsistentHashShardManager = ShardManager +
  virtual_nodes :: int
  ring :: "(int \<times> int) list"

text \<open>\<open>f"shard_{shard_id}_vnode_{vnode}"\<close>.\<close>

definition vnode_key :: "int \<Rightarrow> int \<Rightarrow> string" where
  "vnode_key shard_id vnode = ''shard_'' @ str shard_id @ ''_vnode_'' @ str vnode"

text \<open>The inner and the outer loop of \<open>_build_hash_ring\<close>, appending to \<open>ring\<close>.\<close>

fun vnode_loop ::
  "backend \<Rightarrow> hash_fn \<Rightarrow> int \<Rightarrow> int \<Rightarrow> int list \<Rightarrow> (int \<times> int) list \<Rightarrow> error + (int \<times> int) list" where
  "vnode_loop B f seed shard_id [] ring0 = Inr ring0"
| "vnode_loop B f seed shard_id (vnode # vs) ring0 =
     (case call_hash_func B f (KStr (vnode_key shard_id vnode)) seed of
        Inl e \<Rightarrow> Inl e
      | Inr hash_value \<Rightarrow> vnode_loop B f seed shard_id vs (ring0 @ [(hash_value, shard_id)]))"

fun shard_loop ::
  "backend \<Rightarrow> hash_fn \<Rightarrow> int \<Rightarrow> int \<Rightarrow> int list \<Rightarrow> (int \<times> int) list \<Rightarrow> error + (int \<times> int) list" where
  "shard_loop B f seed vn [] ring0 = Inr ring0"
| "shard_loop B f seed vn (shard_id # ss) ring0 =
     (case vnode_loop B f seed shard_id (py_range vn) ring0 of
        Inl e \<Rightarrow> Inl e
      | Inr ring1 \<Rightarrow> shard_loop B f seed vn ss ring1)"

text \<open>\<open>ring.sort(key=lambda x: x[0])\<close> is a stable sort on the hash value.\<close>

definition build_hash_ring ::
  "backend \<Rightarrow> 'a ShardManager_scheme \<Rightarrow> int \<Rightarrow> error + (int \<times> int) list" where
  "build_hash_ring B self vn =
     (case shard_loop B (hash_func self) (hash_seed (config self)) vn
             (py_range (total_shards (config self))) [] of
        Inl e \<Rightarrow> Inl e
      | Inr ring0 \<Rightarrow> Inr (sort_key fst ring0))"

definition ConsistentHashShardManager_init ::
  "backend \<Rightarrow> ShardConfig \<Rightarrow> int \<Rightarrow> error + ConsistentHashShardManager" where
  "ConsistentHashShardManager_init B cfg vn =
     (case ShardManager_init cfg of
        Inl e \<Rightarrow> Inl e
      | Inr base \<Rightarrow>
          (case build_hash_ring B base vn of
             Inl e \<Rightarrow> Inl e
           | Inr r \<Rightarrow>
               Inr \<lparr>config = config base, hash_func = hash_func base,
                    virtual_nodes = vn, ring = r\<rparr>))"

text \<open>
  The scan of the overriding \<open>get_shard_id\<close>: the shard of the first entry whose hash
  is at least the key's, \<open>None\<close> when the loop falls through.
\<close>

fun ring_scan :: "(int \<times> int) list \<Rightarrow> int \<Rightarrow> int option" where
  "ring_scan [] hash_value = None"
| "ring_scan ((ring_hash, shard_id) # rest) hash_value =
     (if ring_hash \<ge> hash_value then Some shard_id else ring_scan rest hash_value)"

text \<open>\<open>self._ring[0][1]\<close>, an \<open>IndexError\<close> on the empty list.\<close>

fun ring_first_shard :: "(int \<times> int) list \<Rightarrow> error + int" where
  "ring_first_shard [] = Inl IndexError"
| "ring_first_shard ((ring_hash, shard_id) # rest) = Inr shard_id"

definition ring_get_shard_id ::
  "backend \<Rightarrow> ConsistentHashShardManager \<Rightarrow> key \<Rightarrow> error + int" where
  "ring_get_shard_id B self k0 =
     (let k = int_key_to_str k0 in
      case call_hash_func B (hash_func self) k (hash_seed (config self)) of
        Inl e \<Rightarrow> Inl e
      | Inr hash_value \<Rightarrow>
          (case ring_scan (ring self) hash_value of
             Some shard_id \<Rightarrow> Inr shard_id
           | None \<Rightarrow> ring_first_shard (ring self)))"

text \<open>
  A lookup seen as a step on the instance: the value of the call and the instance after
  it. The body of \<open>get_shard_id\<close> assigns to no attribute and calls no mutating method of
  \<open>self._ring\<close>, so the instance comes back as it went in, also when the call raises.
\<close>

definition ring_lookup_step ::
  "backend \<Rightarrow> ConsistentHashShardManager \<Rightarrow> key \<Rightarrow>
     (error + int) \<times> ConsistentHashShardManager" where
  "ring_lookup_step B self k = (ring_get_shard_id B self k, self)"

fun ring_lookups ::
  "backend \<Rightarrow> ConsistentHashShardManager \<Rightarrow> key list \<Rightarrow>
     (error + int) list \<times> ConsistentHashShardManager" where
  "ring_lookups B self [] = ([], self)"
| "ring_lookups B self (k # ks) =
     (case ring_lookup_step B self k of
        (r, self1) \<Rightarrow>
          (case ring_lookups B self1 ks of
             (rs, self2) \<Rightarrow> (r # rs, self2)))"

subsection \<open>A concrete backend and configuration for closed examples\<close>

text \<open>
  A stand-in for the library in the examples that need a concrete hash: a polynomial
  hash of the bytes, started at the seed.
\<close>

definition poly_hash32 :: "bytes \<Rightarrow> int \<Rightarrow> 32 word" where
  "poly_hash32 b seed = foldl (\<lambda>h x. h * 31 + ucast x) (word_of_int seed) b"

definition poly_hash128 :: "bytes \<Rightarrow> int \<Rightarrow> 128 word" where
  "poly_hash128 b seed = foldl (\<lambda>h x. h * 31 + ucast x) (word_of_int seed) b"

definition poly_hash_str :: "string \<Rightarrow> int" where
  "poly_hash_str s = foldl (\<lambda>h c. h * 31 + of_char c) 7 s"

definition example_backend :: "bool \<Rightarrow> backend" where
  "example_backend has =
     \<lparr>HAS_MMH3 = has, mmh3_hash = poly_hash32, mmh3_hash128 = poly_hash128,
      builtin_hash = poly_hash_str\<rparr>"

text \<open>The configuration of the migration example: five shards, seed 42, the 32-bit hash.\<close>

definition example_config :: ShardConfig where
  "example_config = \<lparr>total_shards = 5, hash_seed = 42, algorithm = ''murmur3_32''\<rparr>"

section \<open>Properties\<close>

subsection \<open>The hash wrappers\<close>

lemma and_mask32_range:
  "0 \<le> (x::int) AND 0xffffffff \<and> x AND 0xffffffff \<le> 2 ^ 32 - 1"
proof -
  have "x AND 0xffffffff \<le> (0xffffffff :: int)"
    by (rule AND_upper2) simp
  then show ?thesis by simp
qed

lemma and_mask63_range:
  "0 \<le> (y::int) AND 0x7fffffffffffffff \<and> y AND 0x7fffffffffffffff \<le> 2 ^ 63 - 1"
proof -
  have "y AND 0x7fffffffffffffff \<le> (0x7fffffffffffffff :: int)"
    by (rule AND_upper2) simp
  then show ?thesis by simp
qed

lemma uint32_range: "0 \<le> uint (w :: 32 word) \<and> uint w \<le> 2 ^ 32 - 1"
  using uint_lt2p [of w] by simp

lemma murmur3_32_Inr_range:
  "murmur3_32 B k seed = Inr v \<Longrightarrow> 0 \<le> v \<and> v \<le> 2 ^ 32 - 1"
  using and_mask32_range uint32_range
  by (auto simp: murmur3_32_def mmh3_hash_call_def split: if_splits sum.splits)

lemma murmur3_128_Inr_range:
  "murmur3_128 B k seed = Inr v \<Longrightarrow> 0 \<le> v \<and> v \<le> 2 ^ 63 - 1"
  using and_mask63_range
  by (auto simp: murmur3_128_def split: if_splits sum.splits)

lemma murmur3_32_returns:
  "seed_accepted B seed \<Longrightarrow> \<forall>n. k \<noteq> KInt n \<Longrightarrow> \<exists>v. murmur3_32 B k seed = Inr v"
  by (cases k) (auto simp: murmur3_32_def mmh3_hash_call_def seed_accepted_def)

lemma murmur3_128_returns:
  "seed_accepted B seed \<Longrightarrow> \<forall>n. k \<noteq> KInt n \<Longrightarrow> \<exists>v. murmur3_128 B k seed = Inr v"
  by (cases k) (auto simp: murmur3_128_def mmh3_hash128_call_def seed_accepted_def)

lemma murmur3_32_rejected:
  "\<not> seed_accepted B seed \<Longrightarrow> \<forall>n. k \<noteq> KInt n \<Longrightarrow> murmur3_32 B k seed = Inl ValueError"
  by (cases k) (auto simp: murmur3_32_def mmh3_hash_call_def seed_accepted_def split: if_splits)

lemma murmur3_128_rejected:
  "\<not> seed_accepted B seed \<Longrightarrow> \<forall>n. k \<noteq> KInt n \<Longrightarrow> murmur3_128 B k seed = Inl ValueError"
  by (cases k) (auto simp: murmur3_128_def mmh3_hash128_call_def seed_accepted_def split: if_splits)

lemma murmur3_32_ok:
  assumes "seed_accepted B seed" and "\<forall>n. k \<noteq> KInt n"
  shows "\<exists>v. murmur3_32 B k seed = Inr v \<and> 0 \<le> v \<and> v \<le> 2 ^ 32 - 1"
  using murmur3_32_returns [OF assms] murmur3_32_Inr_range by blast

lemma murmur3_128_ok:
  assumes "seed_accepted B seed" and "\<forall>n. k \<noteq> KInt n"
  shows "\<exists>v. murmur3_128 B k seed = Inr v \<and> 0 \<le> v \<and> v \<le> 2 ^ 63 - 1"
  using murmur3_128_returns [OF assms] murmur3_128_Inr_range by blast

lemma call_hash_func_int: "call_hash_func B f (KInt n) seed = Inl TypeError"
  by (cases f) (simp_all add: murmur3_32_def murmur3_128_def mmh3_hash_call_def
      mmh3_hash128_call_def)

lemma call_hash_func_ok:
  assumes "seed_accepted B seed" and "\<forall>n. k \<noteq> KInt n"
  shows "\<exists>h. call_hash_func B f k seed = Inr h \<and> 0 \<le> h"
  using murmur3_32_ok [OF assms] murmur3_128_ok [OF assms] by (cases f) auto

lemma call_hash_func_rejected:
  assumes "\<not> seed_accepted B seed" and "\<forall>n. k \<noteq> KInt n"
  shows "call_hash_func B f k seed = Inl ValueError"
  using murmur3_32_rejected [OF assms] murmur3_128_rejected [OF assms] by (cases f) auto

lemma int_key_to_str_not_int: "\<forall>n. int_key_to_str k \<noteq> KInt n"
  by (cases k) simp_all

lemma call_hash_func_canonical:
  "seed_accepted B seed \<Longrightarrow> \<exists>h. call_hash_func B f (int_key_to_str k) seed = Inr h \<and> 0 \<le> h"
  using call_hash_func_ok int_key_to_str_not_int by blast

lemma call_hash_func_canonical_rejected:
  "\<not> seed_accepted B seed \<Longrightarrow> call_hash_func B f (int_key_to_str k) seed = Inl ValueError"
  using call_hash_func_rejected int_key_to_str_not_int by blast

lemma call_hash_func_str:
  "seed_accepted B seed \<Longrightarrow> \<exists>h. call_hash_func B f (KStr s) seed = Inr h \<and> 0 \<le> h"
  by (rule call_hash_func_ok) simp_all

lemma call_hash_func_canonical_cases:
  "(\<exists>h. call_hash_func B f (int_key_to_str k) seed = Inr h) \<or>
   call_hash_func B f (int_key_to_str k) seed = Inl ValueError"
  using call_hash_func_canonical call_hash_func_canonical_rejected by blast

lemma str_123: "str 123 = ''123''"
  by code_simp

lemma str_124: "str 124 = ''124''"
  by code_simp

lemma example_seed_accepted: "seed_accepted (example_backend has) 42"
  by (simp add: seed_accepted_def mmh3_seed_ok_def)

text \<open>
  C9, as the claim states it: a value in range for every seed. On the \<open>mmh3\<close> branch the
  seeds -1 and \<open>2^32\<close> make the wrappers raise \<open>ValueError\<close>.
\<close>

theorem murmur3_rejected_seed:
  "murmur3_32 (example_backend True) (KStr ''user_001'') (- 1) = Inl ValueError \<and>
   murmur3_128 (example_backend True) (KStr ''user_001'') 4294967296 = Inl ValueError"
  by (simp add: murmur3_32_def murmur3_128_def mmh3_hash_call_def mmh3_hash128_call_def
      mmh3_seed_ok_def example_backend_def)

text \<open>
  C9, amended. For a \<open>str\<close> or a \<open>bytes\<close> key, with any seed on the fallback branch and with
  a seed in \<open>[0, 2^32 - 1]\<close> on the \<open>mmh3\<close> branch, \<open>murmur3_32\<close> returns an integer in
  \<open>[0, 2^32 - 1]\<close> and \<open>murmur3_128\<close> one in \<open>[0, 2^63 - 1]\<close>. With a seed outside
  \<open>[0, 2^32 - 1]\<close> on the \<open>mmh3\<close> branch both raise \<open>ValueError\<close>. Whatever the key and the
  seed, a value that a wrapper returns lies in its range.
\<close>

theorem murmur3_range:
  "(seed_accepted B seed \<longrightarrow>
      (\<exists>v. murmur3_32 B (KStr s) seed = Inr v \<and> 0 \<le> v \<and> v \<le> 2 ^ 32 - 1) \<and>
      (\<exists>v. murmur3_32 B (KBytes b) seed = Inr v \<and> 0 \<le> v \<and> v \<le> 2 ^ 32 - 1) \<and>
      (\<exists>v. murmur3_128 B (KStr s) seed = Inr v \<and> 0 \<le> v \<and> v \<le> 2 ^ 63 - 1) \<and>
      (\<exists>v. murmur3_128 B (KBytes b) seed = Inr v \<and> 0 \<le> v \<and> v \<le> 2 ^ 63 - 1)) \<and>
   (\<not> seed_accepted B seed \<longrightarrow>
      murmur3_32 B (KStr s) seed = Inl ValueError \<and>
      murmur3_32 B (KBytes b) seed = Inl ValueError \<and>
      murmur3_128 B (KStr s) seed = Inl ValueError \<and>
      murmur3_128 B (KBytes b) seed = Inl ValueError) \<and>
   (murmur3_32 B k seed = Inr v \<longrightarrow> 0 \<le> v \<and> v \<le> 2 ^ 32 - 1) \<and>
   (murmur3_128 B k seed = Inr w \<longrightarrow> 0 \<le> w \<and> w \<le> 2 ^ 63 - 1)"
proof -
  have a: "(\<exists>v. murmur3_32 B (KStr s) seed = Inr v \<and> 0 \<le> v \<and> v \<le> 2 ^ 32 - 1) \<and>
      (\<exists>v. murmur3_32 B (KBytes b) seed = Inr v \<and> 0 \<le> v \<and> v \<le> 2 ^ 32 - 1) \<and>
      (\<exists>v. murmur3_128 B (KStr s) seed = Inr v \<and> 0 \<le> v \<and> v \<le> 2 ^ 63 - 1) \<and>
      (\<exists>v. murmur3_128 B (KBytes b) seed = Inr v \<and> 0 \<le> v \<and> v \<le> 2 ^ 63 - 1)"
    if "seed_accepted B seed"
    using murmur3_32_ok [OF that, of "KStr s"] murmur3_32_ok [OF that, of "KBytes b"]
      murmur3_128_ok [OF that, of "KStr s"] murmur3_128_ok [OF that, of "KBytes b"]
    by simp
  have r: "murmur3_32 B (KStr s) seed = Inl ValueError \<and>
      murmur3_32 B (KBytes b) seed = Inl ValueError \<and>
      murmur3_128 B (KStr s) seed = Inl ValueError \<and>
      murmur3_128 B (KBytes b) seed = Inl ValueError"
    if "\<not> seed_accepted B seed"
    using murmur3_32_rejected [OF that, of "KStr s"] murmur3_32_rejected [OF that, of "KBytes b"]
      murmur3_128_rejected [OF that, of "KStr s"] murmur3_128_rejected [OF that, of "KBytes b"]
    by simp
  from a r show ?thesis
    using murmur3_32_Inr_range murmur3_128_Inr_range by blast
qed

theorem murmur3_range_witness:
  "seed_accepted (example_backend True) 42 \<and>
   \<not> seed_accepted (example_backend True) (- 1) \<and>
   murmur3_32 (example_backend True) (KStr ''123'') 42 = Inr 1299912 \<and>
   (0::int) \<le> 1299912 \<and> (1299912::int) \<le> 2 ^ 32 - 1 \<and>
   murmur3_128 (example_backend True) (KStr ''123'') 42 = Inr 1299912 \<and>
   (1299912::int) \<le> 2 ^ 63 - 1 \<and>
   murmur3_32 (example_backend True) (KBytes [1, 2, 4]) (- 1) = Inl ValueError \<and>
   murmur3_128 (example_backend True) (KBytes [1, 2, 4]) (- 1) = Inl ValueError"
proof -
  have h32: "murmur3_32 (example_backend True) (KStr ''123'') 42 = Inr 1299912"
    by code_simp
  have h128: "murmur3_128 (example_backend True) (KStr ''123'') 42 = Inr 1299912"
    by code_simp
  have rej: "\<not> seed_accepted (example_backend True) (- 1)"
    by (simp add: seed_accepted_def mmh3_seed_ok_def example_backend_def)
  from murmur3_range [of "example_backend True" 42 "''123''" "[1, 2, 4]"
      "KStr ''123''" 1299912 1299912]
    murmur3_range [of "example_backend True" "- 1" "''123''" "[1, 2, 4]"
      "KStr ''123''" 0 0]
  show ?thesis
    using example_seed_accepted [of True] rej h32 h128 by simp
qed

subsection \<open>Modulo routing\<close>

lemma get_shard_id_eq:
  "get_shard_id B m k =
     (case call_hash_func B (hash_func m) (int_key_to_str k) (hash_seed (config m)) of
        Inl e \<Rightarrow> Inl e
      | Inr h \<Rightarrow> py_mod h (total_shards (config m)))"
  by (simp add: get_shard_id_def)

lemma ShardManager_init_eq:
  "ShardManager_init cfg =
     (if algorithm cfg = ''murmur3_32'' then Inr \<lparr>config = cfg, hash_func = Murmur3_32\<rparr>
      else if algorithm cfg = ''murmur3_128'' then Inr \<lparr>config = cfg, hash_func = Murmur3_128\<rparr>
      else Inl ValueError)"
  by (simp add: ShardManager_init_def get_hash_function_def)

lemma example_manager:
  "ShardManager_init example_config = Inr \<lparr>config = example_config, hash_func = Murmur3_32\<rparr>"
  by (simp add: ShardManager_init_eq example_config_def)

text \<open>
  C6. Routing the integer \<open>n\<close> and routing the string \<open>str(n)\<close> give the same result on
  the same manager, for the modulo router and for the ring; in particular 123 and
  \<open>"123"\<close> route alike.
\<close>

theorem integer_canonicalization:
  "get_shard_id B m (KInt n) = get_shard_id B m (KStr (str n)) \<and>
   ring_get_shard_id B r (KInt n) = ring_get_shard_id B r (KStr (str n)) \<and>
   get_shard_id B m (KInt 123) = get_shard_id B m (KStr ''123'') \<and>
   ring_get_shard_id B r (KInt 123) = ring_get_shard_id B r (KStr ''123'')"
  by (simp add: get_shard_id_def ring_get_shard_id_def str_123)

text \<open>
  C2. On a \<open>ShardManager\<close> built from a configuration with at least one shard,
  \<open>get_shard_id\<close> of a key is the hash, under the configuration's seed, of the key itself
  when it is a \<open>str\<close> or \<open>bytes\<close> and of its decimal string when it is an integer, taken
  modulo \<open>total_shards\<close>; the hash is the wrapper named by the configuration's algorithm
  tag, and an error of the hash call is the error of the lookup. With a seed the backend
  accepts the hash call returns, and the shard id lies in \<open>[0, total_shards)\<close>.
\<close>

theorem get_shard_id_modulo:
  assumes "ShardManager_init cfg = Inr m" and "1 \<le> total_shards cfg"
  shows "get_shard_id B m k =
           (case (if algorithm cfg = ''murmur3_32'' then murmur3_32 B else murmur3_128 B)
                   (case k of KStr s \<Rightarrow> KStr s | KInt n \<Rightarrow> KStr (str n) | KBytes b \<Rightarrow> KBytes b)
                   (hash_seed cfg) of
              Inl e \<Rightarrow> Inl e
            | Inr h \<Rightarrow> Inr (h mod total_shards cfg)) \<and>
         (seed_accepted B (hash_seed cfg) \<longrightarrow>
            (\<exists>h. (if algorithm cfg = ''murmur3_32'' then murmur3_32 B else murmur3_128 B)
                    (case k of KStr s \<Rightarrow> KStr s | KInt n \<Rightarrow> KStr (str n) | KBytes b \<Rightarrow> KBytes b)
                    (hash_seed cfg) = Inr h \<and>
                  get_shard_id B m k = Inr (h mod total_shards cfg) \<and>
                  0 \<le> h mod total_shards cfg \<and> h mod total_shards cfg < total_shards cfg))"
proof -
  let ?H = "if algorithm cfg = ''murmur3_32'' then murmur3_32 B else murmur3_128 B"
  let ?c = "case k of KStr s \<Rightarrow> KStr s | KInt n \<Rightarrow> KStr (str n) | KBytes b \<Rightarrow> KBytes b"
  from assms(1) have m: "config m = cfg"
    "hash_func m = (if algorithm cfg = ''murmur3_32'' then Murmur3_32 else Murmur3_128)"
    by (auto simp: ShardManager_init_eq split: if_splits)
  have c: "int_key_to_str k = ?c"
    by (cases k) simp_all
  have H: "call_hash_func B (hash_func m) (int_key_to_str k) (hash_seed (config m)) =
           ?H ?c (hash_seed cfg)"
    by (simp add: m c)
  have eq: "get_shard_id B m k =
           (case ?H ?c (hash_seed cfg) of
              Inl e \<Rightarrow> Inl e
            | Inr h \<Rightarrow> Inr (h mod total_shards cfg))"
    using assms(2)
    by (simp only: get_shard_id_eq H) (simp add: m(1) py_mod_def split: sum.splits)
  have "\<exists>h. ?H ?c (hash_seed cfg) = Inr h \<and>
             get_shard_id B m k = Inr (h mod total_shards cfg) \<and>
             0 \<le> h mod total_shards cfg \<and> h mod total_shards cfg < total_shards cfg"
    if acc: "seed_accepted B (hash_seed cfg)"
  proof -
    obtain h where h:
      "call_hash_func B (hash_func m) (int_key_to_str k) (hash_seed (config m)) = Inr h"
      using call_hash_func_canonical acc m(1) by blast
    then have h': "?H ?c (hash_seed cfg) = Inr h"
      by (simp only: H)
    have "get_shard_id B m k = Inr (h mod total_shards cfg)"
      by (simp only: eq h') simp
    moreover have "0 \<le> h mod total_shards cfg \<and> h mod total_shards cfg < total_shards cfg"
      using assms(2) by simp
    ultimately show ?thesis
      using h' by blast
  qed
  with eq show ?thesis by blast
qed

theorem get_shard_id_modulo_witness:
  "ShardManager_init example_config = Inr \<lparr>config = example_config, hash_func = Murmur3_32\<rparr> \<and>
   1 \<le> total_shards example_config \<and>
   seed_accepted (example_backend True) (hash_seed example_config) \<and>
   murmur3_32 (example_backend True) (KStr ''124'') 42 = Inr 1299913 \<and>
   get_shard_id (example_backend True)
     \<lparr>config = example_config, hash_func = Murmur3_32\<rparr> (KInt 124) = Inr 3 \<and>
   murmur3_32 (example_backend True) (KStr ''user_001'') 42 = Inr 1130114535 \<and>
   get_shard_id (example_backend True)
     \<lparr>config = example_config, hash_func = Murmur3_32\<rparr> (KStr ''user_001'') = Inr 0 \<and>
   murmur3_32 (example_backend True) (KBytes [1, 2, 4]) 42 = Inr 1252249 \<and>
   get_shard_id (example_backend True)
     \<lparr>config = example_config, hash_func = Murmur3_32\<rparr> (KBytes [1, 2, 4]) = Inr 4"
proof -
  have b: "1 \<le> total_shards example_config"
    by (simp add: example_config_def)
  have s: "seed_accepted (example_backend True) (hash_seed example_config)"
    using example_seed_accepted by (simp add: example_config_def)
  have h: "murmur3_32 (example_backend True) (KStr ''124'') 42 = Inr 1299913"
    "murmur3_32 (example_backend True) (KStr ''user_001'') 42 = Inr 1130114535"
    "murmur3_32 (example_backend True) (KBytes [1, 2, 4]) 42 = Inr 1252249"
    by code_simp+
  from get_shard_id_modulo [OF example_manager b, of "example_backend True" "KInt 124"]
    get_shard_id_modulo [OF example_manager b, of "example_backend True" "KStr ''user_001''"]
    get_shard_id_modulo [OF example_manager b, of "example_backend True" "KBytes [1, 2, 4]"]
  show ?thesis
    using example_manager b s h by (simp add: example_config_def str_124)
qed

lemma get_shard_id_zero_shards:
  "total_shards (config m) = 0 \<Longrightarrow> \<exists>e. get_shard_id B m k = Inl e"
  using call_hash_func_canonical_cases [of B "hash_func m" k "hash_seed (config m)"]
  by (auto simp: get_shard_id_eq py_mod_def)

lemma get_shard_id_zero_shards_accepted:
  assumes "total_shards (config m) = 0" and "seed_accepted B (hash_seed (config m))"
  shows "get_shard_id B m k = Inl ZeroDivisionError"
proof -
  obtain h where h:
    "call_hash_func B (hash_func m) (int_key_to_str k) (hash_seed (config m)) = Inr h"
    using call_hash_func_canonical [OF assms(2)] by blast
  show ?thesis
    by (simp add: get_shard_id_eq h py_mod_def assms(1))
qed

text \<open>
  C3, as the claim states it: construction with \<open>total_shards = 0\<close> would have to
  raise. It returns a manager instead.
\<close>

theorem ShardManager_init_zero_shards:
  "ShardManager_init \<lparr>total_shards = 0, hash_seed = 0, algorithm = ''murmur3_32''\<rparr> =
     Inr \<lparr>config = \<lparr>total_shards = 0, hash_seed = 0, algorithm = ''murmur3_32''\<rparr>,
          hash_func = Murmur3_32\<rparr>"
  by (simp add: ShardManager_init_eq)

text \<open>
  C3, amended. \<open>ShardManager.__init__\<close> never looks at \<open>total_shards\<close>: it succeeds
  for every shard count when the algorithm tag is \<open>murmur3_32\<close> or \<open>murmur3_128\<close>
  and raises \<open>ValueError\<close> for any other tag. With \<open>total_shards = 0\<close> the failure comes
  from the later routing call: \<open>get_shard_id\<close> raises for every key, and the error is
  \<open>ZeroDivisionError\<close> whenever the backend accepts the configuration's seed (the hash
  call, made first, then returns).
\<close>

theorem ShardManager_init_no_shard_check:
  "ShardManager_init cfg =
     (if algorithm cfg = ''murmur3_32'' \<or> algorithm cfg = ''murmur3_128''
      then Inr \<lparr>config = cfg,
                hash_func = (if algorithm cfg = ''murmur3_32'' then Murmur3_32 else Murmur3_128)\<rparr>
      else Inl ValueError) \<and>
   (ShardManager_init cfg = Inr m \<and> total_shards cfg = 0 \<longrightarrow>
      (\<exists>e. get_shard_id B m k = Inl e) \<and>
      (seed_accepted B (hash_seed cfg) \<longrightarrow> get_shard_id B m k = Inl ZeroDivisionError))"
proof -
  have "(\<exists>e. get_shard_id B m k = Inl e) \<and>
      (seed_accepted B (hash_seed cfg) \<longrightarrow> get_shard_id B m k = Inl ZeroDivisionError)"
    if "ShardManager_init cfg = Inr m" and "total_shards cfg = 0"
  proof -
    from that(1) have c: "config m = cfg"
      by (auto simp: ShardManager_init_eq split: if_splits)
    with that(2) have z: "total_shards (config m) = 0"
      by simp
    show ?thesis
      using get_shard_id_zero_shards [OF z] get_shard_id_zero_shards_accepted [OF z] c
      by blast
  qed
  then show ?thesis
    by (simp add: ShardManager_init_eq)
qed

theorem ShardManager_init_no_shard_check_witness:
  "ShardManager_init \<lparr>total_shards = 0, hash_seed = 0, algorithm = ''murmur3_32''\<rparr> =
     Inr \<lparr>config = \<lparr>total_shards = 0, hash_seed = 0, algorithm = ''murmur3_32''\<rparr>,
          hash_func = Murmur3_32\<rparr> \<and>
   total_shards \<lparr>total_shards = 0, hash_seed = 0, algorithm = ''murmur3_32''\<rparr> = 0 \<and>
   seed_accepted (example_backend True)
     (hash_seed \<lparr>total_shards = 0, hash_seed = 0, algorithm = ''murmur3_32''\<rparr>) \<and>
   get_shard_id (example_backend True)
     \<lparr>config = \<lparr>total_shards = 0, hash_seed = 0, algorithm = ''murmur3_32''\<rparr>,
      hash_func = Murmur3_32\<rparr> (KStr ''user_001'') = Inl ZeroDivisionError"
proof -
  have s: "seed_accepted (example_backend True)
     (hash_seed \<lparr>total_shards = 0, hash_seed = 0, algorithm = ''murmur3_32''\<rparr>)"
    by (simp add: seed_accepted_def mmh3_seed_ok_def)
  from ShardManager_init_no_shard_check
    [of "\<lparr>total_shards = 0, hash_seed = 0, algorithm = ''murmur3_32''\<rparr>"
        "\<lparr>config = \<lparr>total_shards = 0, hash_seed = 0, algorithm = ''murmur3_32''\<rparr>,
          hash_func = Murmur3_32\<rparr>" "example_backend True" "KStr ''user_001''"]
  show ?thesis
    using s by simp
qed

subsection \<open>Resharding impact\<close>

lemma migrate_key_eq:
  assumes "call_hash_func B (hash_func m) k (hash_seed (config m)) = Inr h"
    and "int_key_to_str k = k" and "old \<noteq> 0" and "total_shards (config m) \<noteq> 0"
  shows "migrate_key B m k old =
           Inr (h mod old, h mod total_shards (config m),
                h mod old \<noteq> h mod total_shards (config m))"
  using assms by (simp add: migrate_key_def get_shard_id_def py_mod_def)

lemma migrate_key_int: "migrate_key B m (KInt n) old = Inl TypeError"
  by (simp add: migrate_key_def call_hash_func_int)

lemma call_hash_func_no_TypeError:
  "\<forall>n. k \<noteq> KInt n \<Longrightarrow> call_hash_func B f k seed \<noteq> Inl TypeError"
  using call_hash_func_ok [of B seed k f] call_hash_func_rejected [of B seed k f]
  by (cases "seed_accepted B seed") auto

lemma get_shard_id_no_TypeError: "get_shard_id B m k \<noteq> Inl TypeError"
  using call_hash_func_no_TypeError [OF int_key_to_str_not_int, of B "hash_func m" k
      "hash_seed (config m)"]
  by (auto simp: get_shard_id_eq py_mod_def split: sum.splits)

lemma migrate_key_str_no_TypeError: "migrate_key B m (KStr s) old \<noteq> Inl TypeError"
proof -
  have "call_hash_func B (hash_func m) (KStr s) (hash_seed (config m)) \<noteq> Inl TypeError"
    by (rule call_hash_func_no_TypeError) simp
  then show ?thesis
    using get_shard_id_no_TypeError [of B m "KStr s"]
    by (auto simp: migrate_key_def py_mod_def split: sum.splits)
qed

text \<open>
  C10. \<open>migrate_key\<close> hands the key to the hash wrapper before any conversion, so an
  integer key raises \<open>TypeError\<close>, whereas \<open>get_shard_id\<close> accepts it and the string
  \<open>str(n)\<close> in its place never raises \<open>TypeError\<close>: with a seed the backend accepts and
  nonzero old and current shard counts it gives the triple of the two moduli and their
  difference flag.
\<close>

theorem migrate_key_int_not_canonicalized:
  "migrate_key B m (KInt n) old = Inl TypeError \<and>
   get_shard_id B m (KInt n) \<noteq> Inl TypeError \<and>
   migrate_key B m (KStr (str n)) old \<noteq> Inl TypeError \<and>
   (seed_accepted B (hash_seed (config m)) \<and> old \<noteq> 0 \<and> total_shards (config m) \<noteq> 0 \<longrightarrow>
      (\<exists>h. call_hash_func B (hash_func m) (KStr (str n)) (hash_seed (config m)) = Inr h \<and>
           migrate_key B m (KStr (str n)) old =
             Inr (h mod old, h mod total_shards (config m),
                  h mod old \<noteq> h mod total_shards (config m))))"
proof -
  have "\<exists>h. call_hash_func B (hash_func m) (KStr (str n)) (hash_seed (config m)) = Inr h \<and>
           migrate_key B m (KStr (str n)) old =
             Inr (h mod old, h mod total_shards (config m),
                  h mod old \<noteq> h mod total_shards (config m))"
    if acc: "seed_accepted B (hash_seed (config m))"
      and nz: "old \<noteq> 0" "total_shards (config m) \<noteq> 0"
  proof -
    obtain h where h:
      "call_hash_func B (hash_func m) (KStr (str n)) (hash_seed (config m)) = Inr h"
      using call_hash_func_str [OF acc] by blast
    have "migrate_key B m (KStr (str n)) old =
          Inr (h mod old, h mod total_shards (config m),
               h mod old \<noteq> h mod total_shards (config m))"
      using migrate_key_eq [OF h _ nz] by simp
    with h show ?thesis by blast
  qed
  then show ?thesis
    using migrate_key_int get_shard_id_no_TypeError migrate_key_str_no_TypeError by blast
qed

theorem migrate_key_int_not_canonicalized_witness:
  "seed_accepted (example_backend True)
     (hash_seed (config \<lparr>config = example_config, hash_func = Murmur3_32\<rparr>)) \<and>
   (3::int) \<noteq> 0 \<and>
   total_shards (config \<lparr>config = example_config, hash_func = Murmur3_32\<rparr>) \<noteq> 0 \<and>
   migrate_key (example_backend True) \<lparr>config = example_config, hash_func = Murmur3_32\<rparr>
     (KInt 124) 3 = Inl TypeError \<and>
   migrate_key (example_backend True) \<lparr>config = example_config, hash_func = Murmur3_32\<rparr>
     (KStr ''124'') 3 = Inr (1, 3, True)"
proof -
  have h: "murmur3_32 (example_backend True) (KStr ''124'') 42 = Inr 1299913"
    by code_simp
  have s: "seed_accepted (example_backend True)
     (hash_seed (config \<lparr>config = example_config, hash_func = Murmur3_32\<rparr>))"
    using example_seed_accepted by (simp add: example_config_def)
  from migrate_key_int_not_canonicalized
    [of "example_backend True" "\<lparr>config = example_config, hash_func = Murmur3_32\<rparr>" 124 3]
  show ?thesis
    using s by (simp add: example_config_def str_124 h)
qed

text \<open>
  C7, at the integer key 123 with five shards, seed 42 and three old shards:
  \<open>migrate_key\<close> raises \<open>TypeError\<close> whatever the backend, where the string \<open>"123"\<close>
  yields a triple (here computed with the example backend).
\<close>

theorem migrate_key_int_example:
  "migrate_key B \<lparr>config = example_config, hash_func = Murmur3_32\<rparr> (KInt 123) 3 =
     Inl TypeError \<and>
   migrate_key (example_backend True) \<lparr>config = example_config, hash_func = Murmur3_32\<rparr>
     (KStr ''123'') 3 = Inr (0, 2, True)"
proof -
  have h: "murmur3_32 (example_backend True) (KStr ''123'') 42 = Inr 1299912"
    by code_simp
  have "migrate_key (example_backend True) \<lparr>config = example_config, hash_func = Murmur3_32\<rparr>
     (KStr ''123'') 3 = Inr (0, 2, True)"
    by (simp add: migrate_key_def get_shard_id_def py_mod_def example_config_def h)
  then show ?thesis
    using migrate_key_int by blast
qed

subsection \<open>Building the ring\<close>

lemma call_hash_func_str_projr:
  "seed_accepted B seed \<Longrightarrow>
   call_hash_func B f (KStr s) seed = Inr (projr (call_hash_func B f (KStr s) seed))"
  using call_hash_func_str [of B seed f s] by auto

lemma call_hash_func_str_rejected:
  "\<not> seed_accepted B seed \<Longrightarrow> call_hash_func B f (KStr s) seed = Inl ValueError"
  by (rule call_hash_func_rejected) simp_all

lemma vnode_loop_eq:
  assumes "seed_accepted B seed"
  shows "vnode_loop B f seed shard_id vs ring0 =
     Inr (ring0 @ map (\<lambda>vnode. (projr (call_hash_func B f (KStr (vnode_key shard_id vnode)) seed),
                                shard_id)) vs)"
proof (induction vs arbitrary: ring0)
  case Nil
  show ?case by simp
next
  case (Cons v vs)
  obtain h where h: "call_hash_func B f (KStr (vnode_key shard_id v)) seed = Inr h"
    using call_hash_func_str [OF assms] by blast
  show ?case
    by (simp add: h Cons.IH)
qed

lemma vnode_loop_rejected:
  "\<not> seed_accepted B seed \<Longrightarrow> vs \<noteq> [] \<Longrightarrow>
   vnode_loop B f seed shard_id vs ring0 = Inl ValueError"
  by (cases vs) (simp_all add: call_hash_func_str_rejected)

lemma shard_loop_eq:
  assumes "seed_accepted B seed"
  shows "shard_loop B f seed vn ss ring0 =
     Inr (ring0 @ concat (map (\<lambda>shard_id.
            map (\<lambda>vnode. (projr (call_hash_func B f (KStr (vnode_key shard_id vnode)) seed),
                           shard_id)) (py_range vn)) ss))"
proof (induction ss arbitrary: ring0)
  case Nil
  show ?case by simp
next
  case (Cons s ss)
  show ?case by (simp add: vnode_loop_eq [OF assms] Cons.IH)
qed

lemma shard_loop_rejected:
  "\<not> seed_accepted B seed \<Longrightarrow> ss \<noteq> [] \<Longrightarrow> py_range vn \<noteq> [] \<Longrightarrow>
   shard_loop B f seed vn ss ring0 = Inl ValueError"
  by (cases ss) (simp_all add: vnode_loop_rejected)

lemma shard_loop_no_vnodes:
  "py_range vn = [] \<Longrightarrow> shard_loop B f seed vn ss ring0 = Inr ring0"
  by (induction ss arbitrary: ring0) simp_all

lemma concat_map_Nil: "concat (map (\<lambda>x. []) xs) = []"
  by (induction xs) simp_all

lemma py_range_Nil_iff: "py_range n = [] \<longleftrightarrow> n \<le> 0"
  by (auto simp: py_range_def)

lemma build_hash_ring_eq:
  "seed_accepted B (hash_seed (config self)) \<Longrightarrow>
   build_hash_ring B self vn =
     Inr (sort_key fst (concat (map (\<lambda>shard_id.
            map (\<lambda>vnode. (projr (call_hash_func B (hash_func self)
                                     (KStr (vnode_key shard_id vnode)) (hash_seed (config self))),
                           shard_id)) (py_range vn)) (py_range (total_shards (config self))))))"
  by (simp add: build_hash_ring_def shard_loop_eq)

lemma build_hash_ring_empty:
  assumes "total_shards (config self) \<le> 0 \<or> vn \<le> 0"
  shows "build_hash_ring B self vn = Inr []"
proof (cases "vn \<le> 0")
  case True
  then have "py_range vn = []"
    by (simp add: py_range_Nil_iff)
  then show ?thesis
    by (simp add: build_hash_ring_def shard_loop_no_vnodes)
next
  case False
  with assms have "py_range (total_shards (config self)) = []"
    by (simp add: py_range_Nil_iff)
  then show ?thesis
    by (simp add: build_hash_ring_def)
qed

lemma build_hash_ring_rejected:
  assumes "\<not> seed_accepted B (hash_seed (config self))"
    and "1 \<le> total_shards (config self)" and "1 \<le> vn"
  shows "build_hash_ring B self vn = Inl ValueError"
proof -
  have "py_range (total_shards (config self)) \<noteq> []" and "py_range vn \<noteq> []"
    using assms(2,3) by (simp_all add: py_range_Nil_iff)
  then show ?thesis
    by (simp add: build_hash_ring_def shard_loop_rejected [OF assms(1)])
qed

lemma build_hash_ring_accepted:
  "build_hash_ring B self vn = Inr r \<Longrightarrow> 1 \<le> total_shards (config self) \<Longrightarrow> 1 \<le> vn \<Longrightarrow>
   seed_accepted B (hash_seed (config self))"
  using build_hash_ring_rejected [of B self vn] by auto

lemma build_hash_ring_Inr:
  assumes "build_hash_ring B self vn = Inr r"
  shows "r = sort_key fst (concat (map (\<lambda>shard_id.
            map (\<lambda>vnode. (projr (call_hash_func B (hash_func self)
                                     (KStr (vnode_key shard_id vnode)) (hash_seed (config self))),
                           shard_id)) (py_range vn)) (py_range (total_shards (config self)))))"
proof (cases "seed_accepted B (hash_seed (config self))")
  case True
  then show ?thesis
    using assms by (simp add: build_hash_ring_eq)
next
  case False
  have e: "total_shards (config self) \<le> 0 \<or> vn \<le> 0"
    using build_hash_ring_rejected [OF False, of vn] assms by force
  then have "r = []"
    using build_hash_ring_empty [OF e, of B] assms by simp
  moreover have "py_range (total_shards (config self)) = [] \<or> py_range vn = []"
    using e by (simp add: py_range_Nil_iff)
  ultimately show ?thesis
    by (auto simp: concat_map_Nil)
qed

lemma length_py_range: "length (py_range n) = nat n"
  by (simp add: py_range_def)

lemma set_py_range: "set (py_range n) = {0..<n}"
  by (auto simp: py_range_def)

lemma length_concat_const:
  "length (concat (map (\<lambda>x. map (g x) ys) xs)) = length xs * length ys"
  by (induction xs) simp_all

lemma length_build_hash_ring:
  "build_hash_ring B self vn = Inr r \<Longrightarrow>
   length r = nat (total_shards (config self)) * nat vn"
  by (drule build_hash_ring_Inr) (simp add: length_concat_const length_py_range)

lemma sorted_build_hash_ring:
  "build_hash_ring B self vn = Inr r \<Longrightarrow> sorted (map fst r)"
  by (drule build_hash_ring_Inr) simp

lemma shards_build_hash_ring:
  "build_hash_ring B self vn = Inr r \<Longrightarrow> e \<in> set r \<Longrightarrow>
   0 \<le> snd e \<and> snd e < total_shards (config self)"
  by (drule build_hash_ring_Inr) (auto simp: set_py_range)

lemma ConsistentHashShardManager_init_Inr:
  assumes "ConsistentHashShardManager_init B cfg vn = Inr m"
  shows "config m = cfg" and "ShardManager_init cfg = Inr \<lparr>config = cfg, hash_func = hash_func m\<rparr>"
    and "virtual_nodes m = vn"
    and "build_hash_ring B \<lparr>config = cfg, hash_func = hash_func m\<rparr> vn = Inr (ring m)"
  using assms
  by (auto simp: ConsistentHashShardManager_init_def ShardManager_init_eq
           split: sum.splits if_splits)

lemma ConsistentHashShardManager_init_accepted:
  assumes "ConsistentHashShardManager_init B cfg vn = Inr m"
    and "1 \<le> total_shards cfg" and "1 \<le> vn"
  shows "seed_accepted B (hash_seed cfg)"
  using build_hash_ring_accepted [OF ConsistentHashShardManager_init_Inr(4) [OF assms(1)]]
    assms(2,3) by simp

lemma ring_scan_find:
  "ring_scan r h = map_option snd (find (\<lambda>e. h \<le> fst e) r)"
  by (induction r h rule: ring_scan.induct) simp_all

lemma ring_first_shard_eq: "r \<noteq> [] \<Longrightarrow> ring_first_shard r = Inr (snd (hd r))"
  by (cases r) auto


lemma ring_get_shard_id_empty:
  "ring m = [] \<Longrightarrow> \<exists>e. ring_get_shard_id B m k = Inl e"
  using call_hash_func_canonical_cases [of B "hash_func m" k "hash_seed (config m)"]
  by (auto simp: ring_get_shard_id_def)

lemma ring_get_shard_id_empty_accepted:
  assumes "ring m = []" and "seed_accepted B (hash_seed (config m))"
  shows "ring_get_shard_id B m k = Inl IndexError"
proof -
  obtain h where h:
    "call_hash_func B (hash_func m) (int_key_to_str k) (hash_seed (config m)) = Inr h"
    using call_hash_func_canonical [OF assms(2)] by blast
  show ?thesis
    by (simp add: ring_get_shard_id_def h assms(1))
qed

lemma ring_lookups_instance: "snd (ring_lookups B m ks) = m"
proof (induction ks arbitrary: m)
  case Nil
  show ?case by simp
next
  case (Cons k ks)
  obtain rs m2 where r: "ring_lookups B m ks = (rs, m2)"
    by (cases "ring_lookups B m ks")
  with Cons.IH [of m] have "m2 = m"
    by simp
  with r show ?case
    by (simp add: ring_lookup_step_def)
qed

subsection \<open>The example rings\<close>

lemma example_range_5: "py_range 5 = [0, 1, 2, 3, 4]"
  by code_simp

lemma example_range_2: "py_range 2 = [0, 1]"
  by code_simp

lemma example_range_1: "py_range 1 = [0]"
  by code_simp

lemma example_upto_4: "[0..4] = [0, 1, 2, 3, 4 :: int]"
  by code_simp

lemma example_upto_1: "[0..1] = [0, 1 :: int]"
  by code_simp

lemma example_strs:
  "str 0 = ''0''" "str 1 = ''1''" "str 2 = ''2''" "str 3 = ''3''" "str 4 = ''4''"
  by code_simp+

lemma example_vnode_hashes:
  "murmur3_32 (example_backend True) (KStr (vnode_key 0 0)) 42 = Inr 1014299535"
  "murmur3_32 (example_backend True) (KStr (vnode_key 1 0)) 42 = Inr 3501812368"
  "murmur3_32 (example_backend True) (KStr (vnode_key 2 0)) 42 = Inr 1694357905"
  "murmur3_32 (example_backend True) (KStr (vnode_key 3 0)) 42 = Inr 4181870738"
  "murmur3_32 (example_backend True) (KStr (vnode_key 4 0)) 42 = Inr 2374416275"
  "murmur3_32 (example_backend True) (KStr (vnode_key 0 1)) 42 = Inr 1014299536"
  "murmur3_32 (example_backend True) (KStr (vnode_key 1 1)) 42 = Inr 3501812369"
  "murmur3_32 (example_backend True) (KStr (vnode_key 2 1)) 42 = Inr 1694357906"
  "murmur3_32 (example_backend True) (KStr (vnode_key 3 1)) 42 = Inr 4181870739"
  "murmur3_32 (example_backend True) (KStr (vnode_key 4 1)) 42 = Inr 2374416276"
  by code_simp+


lemma example_ring:
  "ConsistentHashShardManager_init (example_backend True) example_config 1 =
     Inr \<lparr>config = example_config, hash_func = Murmur3_32, virtual_nodes = 1,
          ring = [(1014299535, 0), (1694357905, 2), (2374416275, 4),
                  (3501812368, 1), (4181870738, 3)]\<rparr>"
  by (simp add: ConsistentHashShardManager_init_def ShardManager_init_eq example_config_def
        build_hash_ring_def example_range_5 example_range_1 example_vnode_hashes)

lemma example_ring_2:
  "ConsistentHashShardManager_init (example_backend True) example_config 2 =
     Inr \<lparr>config = example_config, hash_func = Murmur3_32, virtual_nodes = 2,
          ring = [(1014299535, 0), (1014299536, 0), (1694357905, 2), (1694357906, 2),
                  (2374416275, 4), (2374416276, 4), (3501812368, 1), (3501812369, 1),
                  (4181870738, 3), (4181870739, 3)]\<rparr>"
  by (simp add: ConsistentHashShardManager_init_def ShardManager_init_eq example_config_def
        build_hash_ring_def example_range_5 example_range_2 example_vnode_hashes)

lemma example_vnode_literals:
  "murmur3_32 (example_backend True) (KStr ''shard_0_vnode_0'') 42 = Inr 1014299535"
  "murmur3_32 (example_backend True) (KStr ''shard_0_vnode_1'') 42 = Inr 1014299536"
  "murmur3_32 (example_backend True) (KStr ''shard_1_vnode_0'') 42 = Inr 3501812368"
  "murmur3_32 (example_backend True) (KStr ''shard_1_vnode_1'') 42 = Inr 3501812369"
  "murmur3_32 (example_backend True) (KStr ''shard_2_vnode_0'') 42 = Inr 1694357905"
  "murmur3_32 (example_backend True) (KStr ''shard_2_vnode_1'') 42 = Inr 1694357906"
  "murmur3_32 (example_backend True) (KStr ''shard_3_vnode_0'') 42 = Inr 4181870738"
  "murmur3_32 (example_backend True) (KStr ''shard_3_vnode_1'') 42 = Inr 4181870739"
  "murmur3_32 (example_backend True) (KStr ''shard_4_vnode_0'') 42 = Inr 2374416275"
  "murmur3_32 (example_backend True) (KStr ''shard_4_vnode_1'') 42 = Inr 2374416276"
  by code_simp+

subsection \<open>Ring contents and lookup\<close>

text \<open>
  C8. For a configuration with at least one shard and at least one virtual node, the ring
  built by the constructor has \<open>total_shards * virtual_nodes\<close> entries, is sorted
  ascending by hash value, and holds exactly the pairs of the hash of
  \<open>"shard_<shard_id>_vnode_<vnode>"\<close> (both numbers in decimal) under the configuration's
  seed and the shard id, for every shard id below \<open>total_shards\<close> and every virtual-node
  index below \<open>virtual_nodes\<close>. Lookups leave it as built: after any sequence of
  \<open>get_shard_id\<close> calls the instance, and so its ring, is the one the constructor returned.
\<close>

theorem build_hash_ring_contents:
  assumes "ConsistentHashShardManager_init B cfg vn = Inr m"
    and "1 \<le> total_shards cfg" and "1 \<le> vn"
  shows "length (ring m) = nat (total_shards cfg * vn) \<and>
         sorted (map fst (ring m)) \<and>
         mset (map (\<lambda>(hash_value, shard_id). (Inr hash_value, shard_id)) (ring m)) =
           mset (concat (map (\<lambda>shard_id.
                   map (\<lambda>vnode.
                          ((if algorithm cfg = ''murmur3_32'' then murmur3_32 B else murmur3_128 B)
                             (KStr (''shard_'' @ str shard_id @ ''_vnode_'' @ str vnode))
                             (hash_seed cfg),
                           shard_id))
                       [0..vn - 1]) [0..total_shards cfg - 1])) \<and>
         snd (ring_lookups B m ks) = m \<and>
         ring (snd (ring_lookups B m ks)) = ring m"
proof -
  let ?self = "\<lparr>config = cfg, hash_func = hash_func m\<rparr>"
  let ?F = "\<lambda>(hash_value :: int, shard_id :: int). (Inr hash_value :: error + int, shard_id)"
  let ?H = "if algorithm cfg = ''murmur3_32'' then murmur3_32 B else murmur3_128 B"
  let ?raw = "concat (map (\<lambda>shard_id.
            map (\<lambda>vnode. (projr (call_hash_func B (hash_func m)
                                     (KStr (vnode_key shard_id vnode)) (hash_seed cfg)),
                           shard_id)) (py_range vn)) (py_range (total_shards cfg)))"
  have b: "build_hash_ring B ?self vn = Inr (ring m)"
    by (rule ConsistentHashShardManager_init_Inr(4) [OF assms(1)])
  have acc: "seed_accepted B (hash_seed cfg)"
    by (rule ConsistentHashShardManager_init_accepted [OF assms])
  have hf: "hash_func m = (if algorithm cfg = ''murmur3_32'' then Murmur3_32 else Murmur3_128)"
    using ConsistentHashShardManager_init_Inr(2) [OF assms(1)]
    by (auto simp: ShardManager_init_eq split: if_splits)
  have H: "call_hash_func B (hash_func m) k (hash_seed cfg) = ?H k (hash_seed cfg)" for k
    by (simp add: hf)
  have len: "length (ring m) = nat (total_shards cfg * vn)"
    using length_build_hash_ring [OF b] assms(2) by (simp add: nat_mult_distrib)
  have srt: "sorted (map fst (ring m))"
    by (rule sorted_build_hash_ring [OF b])
  have r: "ring m = sort_key fst ?raw"
    using build_hash_ring_Inr [OF b] by simp
  have "mset (map ?F (ring m)) = mset (map ?F ?raw)"
    by (simp add: r)
  also have "map ?F ?raw = concat (map (\<lambda>shard_id.
                   map (\<lambda>vnode. (call_hash_func B (hash_func m)
                                    (KStr (vnode_key shard_id vnode)) (hash_seed cfg), shard_id))
                       [0..vn - 1]) [0..total_shards cfg - 1])"
    by (simp add: map_concat comp_def py_range_def
          call_hash_func_str_projr [OF acc, symmetric])
  also have "\<dots> = concat (map (\<lambda>shard_id.
                   map (\<lambda>vnode.
                          (?H (KStr (''shard_'' @ str shard_id @ ''_vnode_'' @ str vnode))
                             (hash_seed cfg),
                           shard_id))
                       [0..vn - 1]) [0..total_shards cfg - 1])"
    by (simp only: H vnode_key_def)
  finally have ms: "mset (map ?F (ring m)) = mset (concat (map (\<lambda>shard_id.
                   map (\<lambda>vnode.
                          (?H (KStr (''shard_'' @ str shard_id @ ''_vnode_'' @ str vnode))
                             (hash_seed cfg),
                           shard_id))
                       [0..vn - 1]) [0..total_shards cfg - 1]))" .
  have lk: "snd (ring_lookups B m ks) = m"
    by (rule ring_lookups_instance)
  from len srt ms lk show ?thesis by simp
qed

theorem build_hash_ring_contents_witness:
  "ConsistentHashShardManager_init (example_backend True) example_config 2 =
     Inr \<lparr>config = example_config, hash_func = Murmur3_32, virtual_nodes = 2,
          ring = [(1014299535, 0), (1014299536, 0), (1694357905, 2), (1694357906, 2),
                  (2374416275, 4), (2374416276, 4), (3501812368, 1), (3501812369, 1),
                  (4181870738, 3), (4181870739, 3)]\<rparr> \<and>
   1 \<le> total_shards example_config \<and> (1::int) \<le> 2 \<and>
   length [(1014299535::int, 0::int), (1014299536, 0), (1694357905, 2), (1694357906, 2),
           (2374416275, 4), (2374416276, 4), (3501812368, 1), (3501812369, 1),
           (4181870738, 3), (4181870739, 3)] = nat (total_shards example_config * 2) \<and>
   sorted (map fst [(1014299535::int, 0::int), (1014299536, 0), (1694357905, 2),
                    (1694357906, 2), (2374416275, 4), (2374416276, 4), (3501812368, 1),
                    (3501812369, 1), (4181870738, 3), (4181870739, 3)]) \<and>
   mset [(Inr 1014299535 :: error + int, 0::int), (Inr 1014299536, 0), (Inr 1694357905, 2),
         (Inr 1694357906, 2), (Inr 2374416275, 4), (Inr 2374416276, 4), (Inr 3501812368, 1),
         (Inr 3501812369, 1), (Inr 4181870738, 3), (Inr 4181870739, 3)] =
   mset [(murmur3_32 (example_backend True) (KStr ''shard_0_vnode_0'') 42, 0),
         (murmur3_32 (example_backend True) (KStr ''shard_0_vnode_1'') 42, 0),
         (murmur3_32 (example_backend True) (KStr ''shard_1_vnode_0'') 42, 1),
         (murmur3_32 (example_backend True) (KStr ''shard_1_vnode_1'') 42, 1),
         (murmur3_32 (example_backend True) (KStr ''shard_2_vnode_0'') 42, 2),
         (murmur3_32 (example_backend True) (KStr ''shard_2_vnode_1'') 42, 2),
         (murmur3_32 (example_backend True) (KStr ''shard_3_vnode_0'') 42, 3),
         (murmur3_32 (example_backend True) (KStr ''shard_3_vnode_1'') 42, 3),
         (murmur3_32 (example_backend True) (KStr ''shard_4_vnode_0'') 42, 4),
         (murmur3_32 (example_backend True) (KStr ''shard_4_vnode_1'') 42, 4)] \<and>
   ring (snd (ring_lookups (example_backend True)
          \<lparr>config = example_config, hash_func = Murmur3_32, virtual_nodes = 2,
           ring = [(1014299535, 0), (1014299536, 0), (1694357905, 2), (1694357906, 2),
                   (2374416275, 4), (2374416276, 4), (3501812368, 1), (3501812369, 1),
                   (4181870738, 3), (4181870739, 3)]\<rparr>
          [KStr ''user_001'', KInt 124, KStr ''order_100''])) =
     [(1014299535, 0), (1014299536, 0), (1694357905, 2), (1694357906, 2),
      (2374416275, 4), (2374416276, 4), (3501812368, 1), (3501812369, 1),
      (4181870738, 3), (4181870739, 3)]"
proof -
  have b: "1 \<le> total_shards example_config"
    by (simp add: example_config_def)
  have c: "(1::int) \<le> 2"
    by simp
  have cfg: "total_shards example_config = 5" "hash_seed example_config = 42"
    "algorithm example_config = ''murmur3_32''"
    by (simp_all add: example_config_def)
  note t = build_hash_ring_contents [OF example_ring_2 b c,
      of "[KStr ''user_001'', KInt 124, KStr ''order_100'']"]
  have ms: "mset [(Inr 1014299535 :: error + int, 0::int), (Inr 1014299536, 0),
         (Inr 1694357905, 2), (Inr 1694357906, 2), (Inr 2374416275, 4), (Inr 2374416276, 4),
         (Inr 3501812368, 1), (Inr 3501812369, 1), (Inr 4181870738, 3), (Inr 4181870739, 3)] =
   mset [(murmur3_32 (example_backend True) (KStr ''shard_0_vnode_0'') 42, 0),
         (murmur3_32 (example_backend True) (KStr ''shard_0_vnode_1'') 42, 0),
         (murmur3_32 (example_backend True) (KStr ''shard_1_vnode_0'') 42, 1),
         (murmur3_32 (example_backend True) (KStr ''shard_1_vnode_1'') 42, 1),
         (murmur3_32 (example_backend True) (KStr ''shard_2_vnode_0'') 42, 2),
         (murmur3_32 (example_backend True) (KStr ''shard_2_vnode_1'') 42, 2),
         (murmur3_32 (example_backend True) (KStr ''shard_3_vnode_0'') 42, 3),
         (murmur3_32 (example_backend True) (KStr ''shard_3_vnode_1'') 42, 3),
         (murmur3_32 (example_backend True) (KStr ''shard_4_vnode_0'') 42, 4),
         (murmur3_32 (example_backend True) (KStr ''shard_4_vnode_1'') 42, 4)]"
    using t [THEN conjunct2, THEN conjunct2, THEN conjunct1]
    by (simp add: cfg example_upto_4 example_upto_1 example_strs)
  have lk: "ring (snd (ring_lookups (example_backend True)
          \<lparr>config = example_config, hash_func = Murmur3_32, virtual_nodes = 2,
           ring = [(1014299535, 0), (1014299536, 0), (1694357905, 2), (1694357906, 2),
                   (2374416275, 4), (2374416276, 4), (3501812368, 1), (3501812369, 1),
                   (4181870738, 3), (4181870739, 3)]\<rparr>
          [KStr ''user_001'', KInt 124, KStr ''order_100''])) =
     [(1014299535, 0), (1014299536, 0), (1694357905, 2), (1694357906, 2),
      (2374416275, 4), (2374416276, 4), (3501812368, 1), (3501812369, 1),
      (4181870738, 3), (4181870739, 3)]"
    using t [THEN conjunct2, THEN conjunct2, THEN conjunct2, THEN conjunct2] by simp
  show ?thesis
    using example_ring_2 b ms lk by (simp add: cfg)
qed



text \<open>
  C5. On a ring built from at least one shard and one virtual node, \<open>get_shard_id\<close>
  raises nothing for any key, the wraparound included, and its result lies in
  \<open>[0, total_shards)\<close>.
\<close>

theorem ring_get_shard_id_total:
  assumes "ConsistentHashShardManager_init B cfg vn = Inr m"
    and "1 \<le> total_shards cfg" and "1 \<le> vn"
  shows "\<exists>s. ring_get_shard_id B m k = Inr s \<and> 0 \<le> s \<and> s < total_shards cfg"
proof -
  let ?self = "\<lparr>config = cfg, hash_func = hash_func m\<rparr>"
  have b: "build_hash_ring B ?self vn = Inr (ring m)"
    by (rule ConsistentHashShardManager_init_Inr(4) [OF assms(1)])
  have cfg: "config m = cfg"
    by (rule ConsistentHashShardManager_init_Inr(1) [OF assms(1)])
  have acc: "seed_accepted B (hash_seed cfg)"
    by (rule ConsistentHashShardManager_init_accepted [OF assms])
  have in_range: "0 \<le> snd e \<and> snd e < total_shards cfg" if "e \<in> set (ring m)" for e
    using shards_build_hash_ring [OF b that] by simp
  obtain h where h: "call_hash_func B (hash_func m) (int_key_to_str k) (hash_seed cfg) = Inr h"
    using call_hash_func_canonical [OF acc] by blast
  have "0 < length (ring m)"
    using length_build_hash_ring [OF b] assms(2,3) by simp
  then have ne: "ring m \<noteq> []"
    by auto
  show ?thesis
  proof (cases "find (\<lambda>e. h \<le> fst e) (ring m)")
    case None
    then have "ring_get_shard_id B m k = Inr (snd (hd (ring m)))"
      using h cfg ring_first_shard_eq [OF ne]
      by (simp add: ring_get_shard_id_def ring_scan_find)
    moreover have "hd (ring m) \<in> set (ring m)"
      using ne by simp
    ultimately show ?thesis
      using in_range by blast
  next
    case (Some e)
    then have "ring_get_shard_id B m k = Inr (snd e)"
      using h cfg by (simp add: ring_get_shard_id_def ring_scan_find)
    moreover have "e \<in> set (ring m)"
      using Some by (auto simp: find_Some_iff)
    ultimately show ?thesis
      using in_range by blast
  qed
qed

theorem ring_get_shard_id_total_witness:
  "ConsistentHashShardManager_init (example_backend True) example_config 1 =
     Inr \<lparr>config = example_config, hash_func = Murmur3_32, virtual_nodes = 1,
          ring = [(1014299535, 0), (1694357905, 2), (2374416275, 4),
                  (3501812368, 1), (4181870738, 3)]\<rparr> \<and>
   1 \<le> total_shards example_config \<and> (1::int) \<le> 1 \<and>
   (\<exists>s. ring_get_shard_id (example_backend True)
          \<lparr>config = example_config, hash_func = Murmur3_32, virtual_nodes = 1,
           ring = [(1014299535, 0), (1694357905, 2), (2374416275, 4),
                   (3501812368, 1), (4181870738, 3)]\<rparr> (KInt 123) = Inr s \<and>
        0 \<le> s \<and> s < 5)"
proof -
  have b: "1 \<le> total_shards example_config"
    by (simp add: example_config_def)
  have c: "(1::int) \<le> 1"
    by simp
  from ring_get_shard_id_total [OF example_ring b c, of "KInt 123"]
  show ?thesis
    using example_ring b by (simp add: example_config_def)
qed

text \<open>
  C4, as the claim states it: a constructor call with \<open>total_shards = 0\<close> or with
  \<open>virtual_nodes = 0\<close> would have to raise. Both return an instance whose ring is empty.
\<close>

theorem ConsistentHashShardManager_init_empty_ring:
  "ConsistentHashShardManager_init (example_backend True)
     \<lparr>total_shards = 0, hash_seed = 42, algorithm = ''murmur3_32''\<rparr> 150 =
     Inr \<lparr>config = \<lparr>total_shards = 0, hash_seed = 42, algorithm = ''murmur3_32''\<rparr>,
          hash_func = Murmur3_32, virtual_nodes = 150, ring = []\<rparr> \<and>
   ConsistentHashShardManager_init (example_backend True) example_config 0 =
     Inr \<lparr>config = example_config, hash_func = Murmur3_32, virtual_nodes = 0, ring = []\<rparr>"
  by (simp add: ConsistentHashShardManager_init_def ShardManager_init_eq build_hash_ring_empty
        example_config_def)

text \<open>
  C4, amended. With a recognised algorithm tag and \<open>total_shards \<le> 0\<close> or
  \<open>virtual_nodes \<le> 0\<close>, the constructor succeeds, whatever the seed, and yields an
  instance whose ring is empty; the failure comes at lookup time, where \<open>get_shard_id\<close>
  raises for every key, and the error is \<open>IndexError\<close> whenever the backend accepts the
  configuration's seed (the hash call, made first, then returns).
\<close>

theorem empty_ring_fails_at_lookup:
  assumes "algorithm cfg = ''murmur3_32'' \<or> algorithm cfg = ''murmur3_128''"
    and "total_shards cfg \<le> 0 \<or> vn \<le> 0"
  shows "\<exists>m. ConsistentHashShardManager_init B cfg vn = Inr m \<and> ring m = [] \<and>
             (\<exists>e. ring_get_shard_id B m k = Inl e) \<and>
             (seed_accepted B (hash_seed cfg) \<longrightarrow> ring_get_shard_id B m k = Inl IndexError)"
proof -
  let ?f = "if algorithm cfg = ''murmur3_32'' then Murmur3_32 else Murmur3_128"
  let ?m = "\<lparr>config = cfg, hash_func = ?f, virtual_nodes = vn, ring = []\<rparr>"
  have "build_hash_ring B \<lparr>config = cfg, hash_func = ?f\<rparr> vn = Inr []"
    using assms(2) by (simp add: build_hash_ring_empty)
  then have "ConsistentHashShardManager_init B cfg vn = Inr ?m"
    using assms(1) by (auto simp: ConsistentHashShardManager_init_def ShardManager_init_eq)
  moreover have "ring ?m = []"
    by simp
  moreover have "\<exists>e. ring_get_shard_id B ?m k = Inl e"
    by (rule ring_get_shard_id_empty) simp
  moreover have "ring_get_shard_id B ?m k = Inl IndexError"
    if "seed_accepted B (hash_seed cfg)"
    by (rule ring_get_shard_id_empty_accepted) (simp_all add: that)
  ultimately show ?thesis by blast
qed

theorem empty_ring_fails_at_lookup_witness:
  "(algorithm example_config = ''murmur3_32'' \<or> algorithm example_config = ''murmur3_128'') \<and>
   (total_shards example_config \<le> 0 \<or> (0::int) \<le> 0) \<and>
   seed_accepted (example_backend True) (hash_seed example_config) \<and>
   ConsistentHashShardManager_init (example_backend True) example_config 0 =
     Inr \<lparr>config = example_config, hash_func = Murmur3_32, virtual_nodes = 0, ring = []\<rparr> \<and>
   ring_get_shard_id (example_backend True)
     \<lparr>config = example_config, hash_func = Murmur3_32, virtual_nodes = 0, ring = []\<rparr>
     (KStr ''user_001'') = Inl IndexError"
proof -
  have a: "algorithm example_config = ''murmur3_32'' \<or> algorithm example_config = ''murmur3_128''"
    by (simp add: example_config_def)
  have b: "total_shards example_config \<le> 0 \<or> (0::int) \<le> 0"
    by simp
  have s: "seed_accepted (example_backend True) (hash_seed example_config)"
    using example_seed_accepted by (simp add: example_config_def)
  have c: "ConsistentHashShardManager_init (example_backend True) example_config 0 =
     Inr \<lparr>config = example_config, hash_func = Murmur3_32, virtual_nodes = 0, ring = []\<rparr>"
    by (simp add: ConsistentHashShardManager_init_def ShardManager_init_eq build_hash_ring_empty
        example_config_def)
  from empty_ring_fails_at_lookup [OF a b, of "example_backend True" "KStr ''user_001''"]
  show ?thesis
    using a c s by simp
qed

end
